theory Spec2Isabelle
  imports Main "HOL-Library.Word" "HOL-Library.Multiset"
begin

section \<open>The QuickJS bridge of quickjs\_bridge.cpp\<close>

text \<open>
  The bridge connects two runtimes. The host side is reached through JNI, the script
  side through the QuickJS C interface. Neither library is part of the bridge's source,
  so their calls are modelled by what they are documented to hand back, and everything
  that can fail inside them is a parameter of the model (records \<open>engine\<close>,
  \<open>EngineFaults\<close> and \<open>HostRuntime\<close> below). The functions of
  quickjs\_bridge.cpp themselves are translated line by line.
\<close>

subsection \<open>Host values\<close>

datatype ValueKind = kVoid | kString | kBoolean | kInt | kLong | kDouble

type_synonym jint = "32 word"
type_synonym jlong = "64 word"

text \<open>
  The bridge never computes with a double: it only moves it between the two runtimes.
  A \<open>jdouble\<close> is therefore its 64-bit IEEE pattern; \<open>0.0\<close> is the pattern 0.
\<close>

type_synonym jdouble = "64 word"

text \<open>
  A throwable is known to the bridge by its class and by what \<open>getMessage()\<close> does:
  \<open>None\<close> when the call itself throws, \<open>Some None\<close> when it returns null,
  \<open>Some (Some s)\<close> when it returns the string \<open>s\<close>.
\<close>

datatype JavaThrowable = JavaThrowable string "string option option"

text \<open>
  Objects of the host heap. A class object is identified by its name, as
  \<open>FindClass\<close> finds it; the primitive types are the \<open>TYPE\<close> fields of the boxes.
  A \<open>jobject\<close> is a reference or null (\<open>None\<close>).
\<close>

datatype JavaObject =
    JavaString string
  | JavaBoolean bool
  | JavaInteger jint
  | JavaLong jlong
  | JavaDouble jdouble
  | JavaClass string
  | JavaObjectArray nat
  | JavaThrown JavaThrowable
  | JavaOther nat

type_synonym jobject = "JavaObject option"
type_synonym jstring = "string option"

record JavaRefs =
  stringClass :: jobject
  booleanClass :: jobject
  booleanTypeClass :: jobject
  integerClass :: jobject
  integerTypeClass :: jobject
  longClass :: jobject
  longTypeClass :: jobject
  doubleClass :: jobject
  doubleTypeClass :: jobject
  voidTypeClass :: jobject
  objectClass :: jobject
  methodClass :: jobject
  throwableClass :: jobject
  quickJsExceptionClass :: jobject

text \<open>\<open>JavaRefs{}\<close>: every field null.\<close>

definition noJavaRefs :: JavaRefs where
  "noJavaRefs = \<lparr>stringClass = None, booleanClass = None, booleanTypeClass = None,
     integerClass = None, integerTypeClass = None, longClass = None, longTypeClass = None,
     doubleClass = None, doubleTypeClass = None, voidTypeClass = None, objectClass = None,
     methodClass = None, throwableClass = None, quickJsExceptionClass = None\<rparr>"

text \<open>
  What \<open>cacheJavaReferences\<close> stores when it returns true (a context exists only then,
  see \<open>nativeCreate\<close>).
\<close>

definition cachedJavaRefs :: JavaRefs where
  "cachedJavaRefs = \<lparr>
     stringClass = Some (JavaClass ''java/lang/String''),
     booleanClass = Some (JavaClass ''java/lang/Boolean''),
     booleanTypeClass = Some (JavaClass ''boolean''),
     integerClass = Some (JavaClass ''java/lang/Integer''),
     integerTypeClass = Some (JavaClass ''int''),
     longClass = Some (JavaClass ''java/lang/Long''),
     longTypeClass = Some (JavaClass ''long''),
     doubleClass = Some (JavaClass ''java/lang/Double''),
     doubleTypeClass = Some (JavaClass ''double''),
     voidTypeClass = Some (JavaClass ''void''),
     objectClass = Some (JavaClass ''java/lang/Object''),
     methodClass = Some (JavaClass ''java/lang/reflect/Method''),
     throwableClass = Some (JavaClass ''java/lang/Throwable''),
     quickJsExceptionClass = Some (JavaClass ''io/ton/walletkit/quickjs/QuickJsException'')\<rparr>"

text \<open>
  The JNI environment, as far as the bridge changes it: the live local and global
  references (one entry per reference, so an object referenced twice is listed twice)
  and the pending exception.
\<close>

record JNIEnv =
  localRefs :: "JavaObject list"
  globalRefs :: "JavaObject list"
  pendingException :: "JavaThrowable option"

definition IsSameObject :: "jobject \<Rightarrow> jobject \<Rightarrow> bool" where
  "IsSameObject a b = (a = b)"

definition NewGlobalRef :: "jobject \<Rightarrow> JNIEnv \<Rightarrow> jobject \<times> JNIEnv" where
  "NewGlobalRef obj env =
     (case obj of
        None \<Rightarrow> (None, env)
      | Some x \<Rightarrow> (Some x, env\<lparr>globalRefs := x # globalRefs env\<rparr>))"

definition DeleteGlobalRef :: "jobject \<Rightarrow> JNIEnv \<Rightarrow> JNIEnv" where
  "DeleteGlobalRef obj env =
     (case obj of
        None \<Rightarrow> env
      | Some x \<Rightarrow> env\<lparr>globalRefs := remove1 x (globalRefs env)\<rparr>)"

text \<open>A JNI call that returns an object returns it as a new local reference.\<close>

definition returnLocal :: "jobject \<Rightarrow> JNIEnv \<Rightarrow> jobject \<times> JNIEnv" where
  "returnLocal obj env =
     (case obj of
        None \<Rightarrow> (None, env)
      | Some x \<Rightarrow> (Some x, env\<lparr>localRefs := x # localRefs env\<rparr>))"

definition DeleteLocalRef :: "jobject \<Rightarrow> JNIEnv \<Rightarrow> JNIEnv" where
  "DeleteLocalRef obj env =
     (case obj of
        None \<Rightarrow> env
      | Some x \<Rightarrow> env\<lparr>localRefs := remove1 x (localRefs env)\<rparr>)"

definition ThrowNew :: "string \<Rightarrow> string \<Rightarrow> JNIEnv \<Rightarrow> JNIEnv" where
  "ThrowNew className message env =
     env\<lparr>pendingException := Some (JavaThrowable className (Some (Some message)))\<rparr>"

definition throwQuickJsException :: "JNIEnv \<Rightarrow> JavaRefs \<Rightarrow> string \<Rightarrow> JNIEnv" where
  "throwQuickJsException env refs message =
     (if quickJsExceptionClass refs = None
      then ThrowNew ''java/lang/RuntimeException'' message env
      else ThrowNew ''io/ton/walletkit/quickjs/QuickJsException'' message env)"

definition toUtfString :: "jstring \<Rightarrow> string" where
  "toUtfString v = (case v of None \<Rightarrow> [] | Some chars \<Rightarrow> chars)"

subsection \<open>Script values\<close>

text \<open>
  Modelled from the spec: the constructors of script values (\<open>JS_NewBool\<close>,
  \<open>JS_NewInt32\<close>, \<open>JS_NewInt64\<close>, \<open>JS_NewFloat64\<close>, \<open>JS_NewString\<close>,
  \<open>JS_NewObject\<close>) and the constants \<open>JS_NULL\<close>, \<open>JS_UNDEFINED\<close>,
  \<open>JS_EXCEPTION\<close> belong to the engine's header quickjs.h, which is not among the
  sources. A script value is modelled as the constructor call that built it. For
  \<open>JS_NewInt64\<close> this follows section 4.3 of the spec, "Int64 preserves 64-bit
  precision in the target numeric representation": the value holds its 64-bit argument.
  An object is a reference into the script heap.
\<close>

datatype JSValue =
    JS_NULL
  | JS_UNDEFINED
  | JS_EXCEPTION
  | JS_NewBool bool
  | JS_NewInt32 jint
  | JS_NewInt64 jlong
  | JS_NewFloat64 jdouble
  | JS_NewString string
  | JS_Object nat

abbreviation JS_FALSE :: JSValue where
  "JS_FALSE \<equiv> JS_NewBool False"

text \<open>
  Modelled from the spec: the integer a script numeric value stands for, for the two
  integer constructors (section 4.3: "unbox and wrap").
\<close>

fun scriptInteger :: "JSValue \<Rightarrow> int option" where
  "scriptInteger (JS_NewInt32 w) = Some (sint w)"
| "scriptInteger (JS_NewInt64 w) = Some (sint w)"
| "scriptInteger _ = None"

text \<open>
  The engine's coercions (\<open>JS_ToBool\<close>, \<open>JS_ToInt32\<close>, \<open>JS_ToInt64\<close>,
  \<open>JS_ToFloat64\<close>, \<open>JS_ToCString\<close>) are parameters. \<open>JS_ToBool\<close> returns a
  negative number on failure; the others report failure (a negative status, or a null
  pointer for \<open>JS_ToCString\<close>) as \<open>None\<close>.
\<close>

record engine =
  JS_ToBool :: "JSValue \<Rightarrow> int"
  JS_ToInt32 :: "JSValue \<Rightarrow> jint option"
  JS_ToInt64 :: "JSValue \<Rightarrow> jlong option"
  JS_ToFloat64 :: "JSValue \<Rightarrow> jdouble option"
  JS_ToCString :: "JSValue \<Rightarrow> string option"

definition JS_IsNull :: "JSValue \<Rightarrow> bool" where
  "JS_IsNull v = (v = JS_NULL)"

definition JS_IsUndefined :: "JSValue \<Rightarrow> bool" where
  "JS_IsUndefined v = (v = JS_UNDEFINED)"

definition JS_IsException :: "JSValue \<Rightarrow> bool" where
  "JS_IsException v = (v = JS_EXCEPTION)"

subsection \<open>The classifier\<close>

definition classifyParameter :: "JavaRefs \<Rightarrow> jobject \<Rightarrow> ValueKind" where
  "classifyParameter refs clazzObj =
     (if clazzObj = None then kVoid
      else if IsSameObject clazzObj (stringClass refs) then kString
      else if IsSameObject clazzObj (booleanClass refs)
              \<or> IsSameObject clazzObj (booleanTypeClass refs) then kBoolean
      else if IsSameObject clazzObj (integerClass refs)
              \<or> IsSameObject clazzObj (integerTypeClass refs) then kInt
      else if IsSameObject clazzObj (longClass refs)
              \<or> IsSameObject clazzObj (longTypeClass refs) then kLong
      else if IsSameObject clazzObj (doubleClass refs)
              \<or> IsSameObject clazzObj (doubleTypeClass refs) then kDouble
      else kVoid)"

subsection \<open>The two converters\<close>

text \<open>
  \<open>Boolean.valueOf\<close>, \<open>Integer.valueOf\<close>, \<open>Long.valueOf\<close>, \<open>Double.valueOf\<close>
  and \<open>NewStringUTF\<close> hand back a local reference to the box.
\<close>

definition convertJsToJava :: "engine \<Rightarrow> ValueKind \<Rightarrow> JSValue \<Rightarrow> JNIEnv \<Rightarrow> jobject \<times> JNIEnv" where
  "convertJsToJava e kind v env =
     (case kind of
        kString \<Rightarrow>
          (if JS_IsNull v \<or> JS_IsUndefined v then (None, env)
           else (case JS_ToCString e v of
                   None \<Rightarrow> (None, env)
                 | Some chars \<Rightarrow> returnLocal (Some (JavaString chars)) env))
      | kBoolean \<Rightarrow>
          (let boolValue = JS_ToBool e v
           in if boolValue < 0 then (None, env)
              else returnLocal (Some (JavaBoolean (boolValue \<noteq> 0))) env)
      | kInt \<Rightarrow>
          (case JS_ToInt32 e v of
             None \<Rightarrow> (None, env)
           | Some intValue \<Rightarrow> returnLocal (Some (JavaInteger intValue)) env)
      | kLong \<Rightarrow>
          (case JS_ToInt64 e v of
             None \<Rightarrow> (None, env)
           | Some longValue \<Rightarrow> returnLocal (Some (JavaLong longValue)) env)
      | kDouble \<Rightarrow>
          (case JS_ToFloat64 e v of
             None \<Rightarrow> (None, env)
           | Some doubleValue \<Rightarrow> returnLocal (Some (JavaDouble doubleValue)) env)
      | kVoid \<Rightarrow> (None, env))"

text \<open>
  The unboxing calls (\<open>booleanValue\<close>, \<open>intValue\<close>, \<open>longValue\<close>,
  \<open>doubleValue\<close>, \<open>GetStringUTFChars\<close>) are defined by JNI only on an object of the
  class they belong to. On any other object \<open>convertJavaToJs\<close> has no defined result:
  \<open>None\<close>.
\<close>

definition convertJavaToJs :: "ValueKind \<Rightarrow> jobject \<Rightarrow> JSValue option" where
  "convertJavaToJs kind v =
     (case kind of
        kString \<Rightarrow>
          (case v of
             None \<Rightarrow> Some JS_NULL
           | Some (JavaString chars) \<Rightarrow> Some (JS_NewString chars)
           | Some _ \<Rightarrow> None)
      | kBoolean \<Rightarrow>
          (case v of
             None \<Rightarrow> Some JS_FALSE
           | Some (JavaBoolean boolValue) \<Rightarrow> Some (JS_NewBool boolValue)
           | Some _ \<Rightarrow> None)
      | kInt \<Rightarrow>
          (case v of
             None \<Rightarrow> Some (JS_NewInt32 0)
           | Some (JavaInteger intValue) \<Rightarrow> Some (JS_NewInt32 intValue)
           | Some _ \<Rightarrow> None)
      | kLong \<Rightarrow>
          (case v of
             None \<Rightarrow> Some (JS_NewInt32 0)
           | Some (JavaLong longValue) \<Rightarrow> Some (JS_NewInt64 longValue)
           | Some _ \<Rightarrow> None)
      | kDouble \<Rightarrow>
          (case v of
             None \<Rightarrow> Some (JS_NewFloat64 0)
           | Some (JavaDouble doubleValue) \<Rightarrow> Some (JS_NewFloat64 doubleValue)
           | Some _ \<Rightarrow> None)
      | kVoid \<Rightarrow> Some JS_UNDEFINED)"

subsection \<open>The script heap\<close>

text \<open>
  The script side is a store of objects. An object has named properties and may be a
  native function made by \<open>JS_NewCFunctionMagic\<close>, which then carries its name, its
  declared length and its magic number. The global object's properties are a field of
  the context. The engine's reference counts are not tracked (\<open>JS_DupValue\<close> and
  \<open>JS_FreeValue\<close> change nothing here): an object that no property refers to cannot
  be reached by a script. The pending script exception is the field \<open>exception\<close>.
\<close>

datatype JSError = TypeError string | InternalError string

datatype JSObject = JSObject (properties: "string \<rightharpoonup> JSValue") (cfunction: "(string \<times> nat \<times> jint) option")

record JSContext =
  globalObject :: "string \<rightharpoonup> JSValue"
  objects :: "JSObject list"
  exception :: "JSError option"

text \<open>
  The engine calls of a registration that can fail; whether they do is not decided by
  the bridge.
\<close>

record EngineFaults =
  failNewObject :: bool
  failSetProperty :: bool
  failNewCFunction :: bool
  failDefineProperty :: bool

definition JS_GetPropertyStr :: "(string \<rightharpoonup> JSValue) \<Rightarrow> string \<Rightarrow> JSValue" where
  "JS_GetPropertyStr props name = (case props name of None \<Rightarrow> JS_UNDEFINED | Some v \<Rightarrow> v)"

definition JS_NewObject :: "EngineFaults \<Rightarrow> JSContext \<Rightarrow> JSValue \<times> JSContext" where
  "JS_NewObject f ctx =
     (if failNewObject f then (JS_EXCEPTION, ctx)
      else (JS_Object (length (objects ctx)),
            ctx\<lparr>objects := objects ctx @ [JSObject Map.empty None]\<rparr>))"

text \<open>\<open>JS_SetPropertyStr\<close> on the global object.\<close>

definition JS_SetPropertyStr :: "EngineFaults \<Rightarrow> string \<Rightarrow> JSValue \<Rightarrow> JSContext \<Rightarrow> int \<times> JSContext" where
  "JS_SetPropertyStr f name v ctx =
     (if failSetProperty f then (-1, ctx)
      else (1, ctx\<lparr>globalObject := (globalObject ctx)(name \<mapsto> v)\<rparr>))"

definition JS_NewCFunctionMagic :: "EngineFaults \<Rightarrow> string \<Rightarrow> nat \<Rightarrow> jint \<Rightarrow> JSContext \<Rightarrow> JSValue \<times> JSContext" where
  "JS_NewCFunctionMagic f name len magic ctx =
     (if failNewCFunction f then (JS_EXCEPTION, ctx)
      else (JS_Object (length (objects ctx)),
            ctx\<lparr>objects := objects ctx @ [JSObject Map.empty (Some (name, len, magic))]\<rparr>))"

text \<open>
  Defining a property fails on a value that is not an object, and whenever the engine
  says so.
\<close>

definition JS_DefinePropertyValueStr :: "EngineFaults \<Rightarrow> JSValue \<Rightarrow> string \<Rightarrow> JSValue \<Rightarrow> JSContext \<Rightarrow> int \<times> JSContext" where
  "JS_DefinePropertyValueStr f this_obj name v ctx =
     (case this_obj of
        JS_Object p \<Rightarrow>
          (if failDefineProperty f \<or> \<not> p < length (objects ctx) then (-1, ctx)
           else (1, ctx\<lparr>objects := (objects ctx)
                   [p := JSObject ((properties (objects ctx ! p))(name \<mapsto> v))
                                  (cfunction (objects ctx ! p))]\<rparr>))
      | _ \<Rightarrow> (-1, ctx))"

definition JS_ThrowTypeError :: "string \<Rightarrow> JSContext \<Rightarrow> JSValue \<times> JSContext" where
  "JS_ThrowTypeError message ctx = (JS_EXCEPTION, ctx\<lparr>exception := Some (TypeError message)\<rparr>)"

definition JS_ThrowInternalError :: "string \<Rightarrow> JSContext \<Rightarrow> JSValue \<times> JSContext" where
  "JS_ThrowInternalError message ctx =
     (JS_EXCEPTION, ctx\<lparr>exception := Some (InternalError message)\<rparr>)"

definition throwTypeError :: "string \<Rightarrow> JSContext \<Rightarrow> JSValue \<times> JSContext" where
  "throwTypeError message ctx = JS_ThrowTypeError message ctx"


subsection \<open>ensureGlobalObject\<close>

text \<open>
  The result \<open>None\<close> is the return value false; \<open>Some v\<close> is true with
  \<open>objectValue = v\<close>.
\<close>

definition ensureGlobalObject :: "EngineFaults \<Rightarrow> string \<Rightarrow> JSContext \<Rightarrow> JSValue option \<times> JSContext" where
  "ensureGlobalObject f name ctx =
     (let existing = JS_GetPropertyStr (globalObject ctx) name
      in if JS_IsUndefined existing \<or> JS_IsNull existing then
           (let (created, ctx1) = JS_NewObject f ctx
            in if JS_IsException created then (None, ctx1)
               else (let (status, ctx2) = JS_SetPropertyStr f name created ctx1
                     in if status < 0 then (None, ctx2) else (Some created, ctx2)))
         else (Some existing, ctx))"

subsection \<open>The registry\<close>

text \<open>
  \<open>int\<close> is 32 bits wide; \<open>nextBindingId++\<close> wraps around at \<open>INT_MAX\<close> on the
  targets of the bridge. The \<open>unordered_map\<close> is a list of entries with distinct keys:
  \<open>emplace\<close> leaves the map alone when the key is there already.
\<close>

record MethodBinding =
  id' :: jint
  objectName :: string
  methodName :: string
  method' :: jobject
  instance' :: jobject
  parameterKinds :: "ValueKind list"
  returnKind :: ValueKind

record QuickJsContext =
  refs :: JavaRefs
  bindings :: "(jint \<times> MethodBinding) list"
  nextBindingId :: jint

definition findBinding :: "(jint \<times> MethodBinding) list \<Rightarrow> jint \<Rightarrow> MethodBinding option" where
  "findBinding bs k = map_of bs k"

definition emplace :: "jint \<Rightarrow> MethodBinding \<Rightarrow> (jint \<times> MethodBinding) list \<Rightarrow> (jint \<times> MethodBinding) list" where
  "emplace k b bs = (if findBinding bs k = None then bs @ [(k, b)] else bs)"

definition erase :: "jint \<Rightarrow> (jint \<times> MethodBinding) list \<Rightarrow> (jint \<times> MethodBinding) list" where
  "erase k bs = filter (\<lambda>entry. fst entry \<noteq> k) bs"

text \<open>
  The whole state: the JNI environment, the script context, and the bridge context
  that \<open>pointer\<close> and the script context's opaque pointer refer to (\<open>None\<close>: the
  pointer is 0).
\<close>

record Machine =
  jni :: JNIEnv
  js :: JSContext
  quick :: "QuickJsContext option"

text \<open>
  \<open>nativeCreate\<close> when every allocation succeeds (otherwise it returns 0 and there is
  no context); \<open>ctx\<close> is the script context \<open>JS_NewContext\<close> made.
\<close>

definition classReferences :: "JavaRefs \<Rightarrow> jobject list" where
  "classReferences r =
     [methodClass r, stringClass r, booleanClass r, booleanTypeClass r, integerClass r,
      integerTypeClass r, longClass r, longTypeClass r, doubleClass r, doubleTypeClass r,
      voidTypeClass r, objectClass r, throwableClass r, quickJsExceptionClass r]"

definition nativeCreate :: "JSContext \<Rightarrow> JNIEnv \<Rightarrow> Machine" where
  "nativeCreate ctx env =
     \<lparr>jni = fold (\<lambda>c env'. snd (NewGlobalRef c env')) (classReferences cachedJavaRefs) env,
      js = ctx,
      quick = Some \<lparr>refs = cachedJavaRefs, bindings = [], nextBindingId = 1\<rparr>\<rparr>"

subsection \<open>nativeRegister\<close>

text \<open>The loop over the parameter types; \<open>None\<close> when it meets \<open>kVoid\<close>.\<close>

fun classifyParameters :: "JavaRefs \<Rightarrow> jobject list \<Rightarrow> ValueKind list \<Rightarrow> ValueKind list option" where
  "classifyParameters r [] kinds = Some kinds"
| "classifyParameters r (parameterType # rest) kinds =
     (let kind = classifyParameter r parameterType
      in if kind = kVoid then None else classifyParameters r rest (kinds @ [kind]))"

text \<open>The return type; \<open>None\<close> is the "Unsupported return type" exit.\<close>

definition classifyReturn :: "JavaRefs \<Rightarrow> jobject \<Rightarrow> ValueKind option" where
  "classifyReturn r returnType =
     (if returnType \<noteq> None \<and> \<not> IsSameObject returnType (voidTypeClass r) then
        (let kind = classifyParameter r returnType
         in if kind = kVoid \<and> \<not> IsSameObject returnType (stringClass r) then None
            else if kind = kVoid \<and> IsSameObject returnType (stringClass r) then Some kString
            else Some kind)
      else Some kVoid)"

text \<open>The block that each of the three late failures runs under the lock.\<close>

definition rollback :: "jint \<Rightarrow> JNIEnv \<Rightarrow> QuickJsContext \<Rightarrow> JNIEnv \<times> QuickJsContext" where
  "rollback bindingId env context =
     (case findBinding (bindings context) bindingId of
        None \<Rightarrow> (env, context)
      | Some stored \<Rightarrow>
          (DeleteGlobalRef (instance' stored) (DeleteGlobalRef (method' stored) env),
           context\<lparr>bindings := erase bindingId (bindings context)\<rparr>))"

definition nativeRegister :: "EngineFaults \<Rightarrow> jstring \<Rightarrow> jstring \<Rightarrow> jobject \<Rightarrow> jobject \<Rightarrow> jobject list option \<Rightarrow> jobject \<Rightarrow> Machine \<Rightarrow> Machine" where
  "nativeRegister f objName metName method instance parameterTypes returnType m =
     (case quick m of
        None \<Rightarrow>
          m\<lparr>jni := throwQuickJsException (jni m) noJavaRefs ''QuickJs runtime has been destroyed''\<rparr>
      | Some context \<Rightarrow>
          (let objectNameUtf = toUtfString objName;
               methodNameUtf = toUtfString metName
           in if objectNameUtf = [] \<or> methodNameUtf = [] then
                m\<lparr>jni := throwQuickJsException (jni m) (refs context)
                            ''Object or method name cannot be empty''\<rparr>
              else
                (let types = (case parameterTypes of None \<Rightarrow> [] | Some ts \<Rightarrow> ts);
                     parameterCount = length types;
                     (bmethod, env1) = NewGlobalRef method (jni m);
                     (binstance, env2) = NewGlobalRef instance env1
                 in case classifyParameters (refs context) types [] of
                      None \<Rightarrow>
                        m\<lparr>jni := DeleteGlobalRef binstance (DeleteGlobalRef bmethod
                            (throwQuickJsException env2 (refs context)
                               (''Unsupported parameter type for method '' @ objectNameUtf
                                  @ ''.'' @ methodNameUtf)))\<rparr>
                    | Some kinds \<Rightarrow>
                       (case classifyReturn (refs context) returnType of
                          None \<Rightarrow>
                            m\<lparr>jni := DeleteGlobalRef binstance (DeleteGlobalRef bmethod
                                (throwQuickJsException env2 (refs context)
                                   (''Unsupported return type for method '' @ objectNameUtf
                                      @ ''.'' @ methodNameUtf)))\<rparr>
                        | Some kind \<Rightarrow>
                           (let bindingId = nextBindingId context;
                                binding = \<lparr>id' = bindingId, objectName = objectNameUtf,
                                   methodName = methodNameUtf, method' = bmethod,
                                   instance' = binstance, parameterKinds = kinds,
                                   returnKind = kind\<rparr>;
                                context1 = context\<lparr>bindings := emplace bindingId binding (bindings context),
                                   nextBindingId := nextBindingId context + 1\<rparr>
                            in case ensureGlobalObject f objectNameUtf (js m) of
                                 (None, js1) \<Rightarrow>
                                   (let (env3, context2) = rollback bindingId env2 context1
                                    in \<lparr>jni = throwQuickJsException env3 (refs context2)
                                               (''Failed to create host object '' @ objectNameUtf),
                                        js = js1, quick = Some context2\<rparr>)
                               | (Some objectValue, js1) \<Rightarrow>
                                   (let (function, js2) =
                                          JS_NewCFunctionMagic f methodNameUtf parameterCount bindingId js1
                                    in if JS_IsException function then
                                         (let (env3, context2) = rollback bindingId env2 context1
                                          in \<lparr>jni = throwQuickJsException env3 (refs context2)
                                                 (''Failed to create native function for ''
                                                    @ objectNameUtf @ ''.'' @ methodNameUtf),
                                              js = js2, quick = Some context2\<rparr>)
                                       else
                                         (let (status, js3) = JS_DefinePropertyValueStr f objectValue
                                                 methodNameUtf function js2
                                          in if status < 0 then
                                               (let (env3, context2) = rollback bindingId env2 context1
                                                in \<lparr>jni = throwQuickJsException env3 (refs context2)
                                                       (''Failed to attach method '' @ objectNameUtf
                                                          @ ''.'' @ methodNameUtf),
                                                    js = js3, quick = Some context2\<rparr>)
                                             else
                                               \<lparr>jni = env2, js = js3, quick = Some context1\<rparr>)))))))"

subsection \<open>The dispatcher\<close>

text \<open>
  What the host does during one call is not decided by the bridge: whether the thread
  gets a JNI environment (\<open>requireEnv\<close>), whether \<open>NewObjectArray\<close> finds memory,
  and what \<open>Method.invoke\<close> does with the receiver and the arguments: it leaves an
  exception pending (\<open>Inl\<close>) or returns an object (\<open>Inr\<close>).
\<close>

record HostRuntime =
  envAvailable :: bool
  arrayAllocated :: bool
  invoke :: "jobject \<Rightarrow> jobject \<Rightarrow> jobject list \<Rightarrow> JavaThrowable + jobject"

definition NewObjectArray :: "HostRuntime \<Rightarrow> nat \<Rightarrow> JNIEnv \<Rightarrow> jobject \<times> JNIEnv" where
  "NewObjectArray h n env =
     (if arrayAllocated h then returnLocal (Some (JavaObjectArray n)) env else (None, env))"

definition CallObjectMethod :: "HostRuntime \<Rightarrow> jobject \<Rightarrow> jobject \<Rightarrow> jobject list \<Rightarrow> JNIEnv \<Rightarrow> jobject \<times> JNIEnv" where
  "CallObjectMethod h method receiver args env =
     (case invoke h method receiver args of
        Inl thrown \<Rightarrow> (None, env\<lparr>pendingException := Some thrown\<rparr>)
      | Inr result \<Rightarrow> returnLocal result env)"

definition ExceptionCheck :: "JNIEnv \<Rightarrow> bool" where
  "ExceptionCheck env = (pendingException env \<noteq> None)"

definition ExceptionClear :: "JNIEnv \<Rightarrow> JNIEnv" where
  "ExceptionClear env = env\<lparr>pendingException := None\<rparr>"

definition describeThrowable :: "JNIEnv \<Rightarrow> JavaThrowable option \<Rightarrow> string \<times> JNIEnv" where
  "describeThrowable env throwable =
     (case throwable of
        None \<Rightarrow> (''Host method threw an exception'', env)
      | Some (JavaThrowable className getMessage) \<Rightarrow>
          (case getMessage of
             None \<Rightarrow> (''Host method threw an exception'', ExceptionClear env)
           | Some messageObject \<Rightarrow>
               (let (ref, env1) = returnLocal (map_option JavaString messageObject) env;
                    message = toUtfString messageObject;
                    env2 = DeleteLocalRef ref env1
                in if message = [] then (''Host method threw an exception'', env2)
                   else (message, env2))))"

text \<open>
  The argument loop of \<open>invokeBinding\<close>. \<open>Inl\<close> is the early exit at an argument
  that could not be converted, with the arguments converted so far; \<open>Inr\<close> is the
  complete \<open>localArgs\<close>.
\<close>

fun convertArguments :: "engine \<Rightarrow> JSValue list \<Rightarrow> nat \<Rightarrow> ValueKind list \<Rightarrow> jobject list \<Rightarrow> JNIEnv \<Rightarrow> (jobject list + jobject list) \<times> JNIEnv" where
  "convertArguments e argv index [] localArgs env = (Inr localArgs, env)"
| "convertArguments e argv index (kind # kinds) localArgs env =
     (let argument = (if index < length argv then argv ! index else JS_UNDEFINED);
          (converted, env1) = convertJsToJava e kind argument env
      in if converted = None \<and> kind \<noteq> kString then (Inl localArgs, env1)
         else convertArguments e argv (Suc index) kinds (localArgs @ [converted]) env1)"

text \<open>
  The result is \<open>None\<close> where \<open>convertJavaToJs\<close> has no defined result (the host
  method returned an object that is not of the class its return kind stands for).
\<close>

definition invokeBinding :: "engine \<Rightarrow> HostRuntime \<Rightarrow> MethodBinding \<Rightarrow> JSValue list \<Rightarrow> JSContext \<Rightarrow> JNIEnv \<Rightarrow> JSValue option \<times> JSContext \<times> JNIEnv" where
  "invokeBinding e h binding argv ctx env =
     (if \<not> envAvailable h then
        (let (thrown, ctx1) = JS_ThrowInternalError ''Failed to obtain JNI environment'' ctx
         in (Some thrown, ctx1, env))
      else
        (let paramCount = length (parameterKinds binding);
             (argsArray, env1) =
                (if paramCount > 0 then NewObjectArray h paramCount env else (None, env))
         in if paramCount > 0 \<and> argsArray = None then
              (let (thrown, ctx1) = JS_ThrowInternalError ''Unable to allocate argument array'' ctx
               in (Some thrown, ctx1, env1))
            else
              (case convertArguments e argv 0 (parameterKinds binding) [] env1 of
                 (Inl localArgs, env2) \<Rightarrow>
                   (let env3 = DeleteLocalRef argsArray env2;
                        env4 = fold DeleteLocalRef localArgs env3;
                        (thrown, ctx1) = throwTypeError
                           (''Unable to convert argument for method '' @ objectName binding
                              @ ''.'' @ methodName binding) ctx
                    in (Some thrown, ctx1, env4))
               | (Inr localArgs, env2) \<Rightarrow>
                   (let (invocationResult, env3) =
                          CallObjectMethod h (method' binding) (instance' binding) localArgs env2;
                        env4 = fold DeleteLocalRef localArgs env3;
                        env5 = DeleteLocalRef argsArray env4
                    in if ExceptionCheck env5 then
                         (let (throwable, env6) =
                                returnLocal (map_option JavaThrown (pendingException env5)) env5;
                              env7 = ExceptionClear env6;
                              (message, env8) = describeThrowable env7 (pendingException env5);
                              env9 = DeleteLocalRef throwable env8;
                              (thrown, ctx1) = JS_ThrowInternalError message ctx
                          in (Some thrown, ctx1, env9))
                       else
                         (let jsResult =
                                (if returnKind binding \<noteq> kVoid
                                 then convertJavaToJs (returnKind binding) invocationResult
                                 else Some JS_UNDEFINED);
                              env6 = DeleteLocalRef invocationResult env5
                          in (jsResult, ctx, env6))))))"

definition methodDispatcher :: "engine \<Rightarrow> HostRuntime \<Rightarrow> jint \<Rightarrow> JSValue list \<Rightarrow> Machine \<Rightarrow> JSValue option \<times> Machine" where
  "methodDispatcher e h magic argv m =
     (case quick m of
        None \<Rightarrow>
          (let (thrown, ctx1) = JS_ThrowInternalError ''QuickJs context missing'' (js m)
           in (Some thrown, m\<lparr>js := ctx1\<rparr>))
      | Some quickContext \<Rightarrow>
          (case findBinding (bindings quickContext) magic of
             None \<Rightarrow>
               (let (thrown, ctx1) = JS_ThrowInternalError ''Host binding not found'' (js m)
                in (Some thrown, m\<lparr>js := ctx1\<rparr>))
           | Some binding \<Rightarrow>
               (let (result, ctx1, env1) = invokeBinding e h binding argv (js m) (jni m)
                in (result, m\<lparr>jni := env1, js := ctx1\<rparr>))))"

subsection \<open>nativeDestroy\<close>




subsection \<open>Runs of the bridge\<close>

text \<open>
  The entry points that reach the registry while the context lives are
  \<open>nativeRegister\<close> and, from a script that \<open>nativeEvaluate\<close> or
  \<open>nativeExecutePendingJob\<close> runs, \<open>methodDispatcher\<close>. The locked sections of two
  threads do not overlap, so a run is a list of calls, in the order of their locked
  sections. What a script does to the script heap between two calls is a \<open>Script\<close>
  step: any function on the script context.
\<close>

datatype Call =
    Register EngineFaults jstring jstring jobject jobject "jobject list option" jobject
  | Dispatch engine HostRuntime jint "JSValue list"
  | Script "JSContext \<Rightarrow> JSContext"

fun step :: "Call \<Rightarrow> Machine \<Rightarrow> Machine" where
  "step (Register f objName metName method instance parameterTypes returnType) m =
     nativeRegister f objName metName method instance parameterTypes returnType m"
| "step (Dispatch e h magic argv) m = snd (methodDispatcher e h magic argv m)"
| "step (Script g) m = m\<lparr>js := g (js m)\<rparr>"

definition run :: "Call list \<Rightarrow> Machine \<Rightarrow> Machine" where
  "run calls m = fold step calls m"

text \<open>
  The identifier a call takes from the counter: a registration that reaches
  \<open>bindingId = context.nextBindingId++\<close> takes the counter's value and moves the counter.
\<close>

definition assignedId :: "Call \<Rightarrow> Machine \<Rightarrow> jint option" where
  "assignedId c m =
     (case (quick m, quick (step c m)) of
        (Some before, Some after) \<Rightarrow>
          (if nextBindingId after \<noteq> nextBindingId before then Some (nextBindingId before)
           else None)
      | _ \<Rightarrow> None)"

fun assignedIds :: "Call list \<Rightarrow> Machine \<Rightarrow> jint list" where
  "assignedIds [] m = []"
| "assignedIds (c # calls) m =
     (case assignedId c m of
        None \<Rightarrow> assignedIds calls (step c m)
      | Some k \<Rightarrow> k # assignedIds calls (step c m))"

subsection \<open>Notions used in the statements\<close>

text \<open>The descriptors that stand for a kind: String and the four boxes with their primitives.\<close>

definition supportedDescriptors :: "JavaRefs \<Rightarrow> jobject list" where
  "supportedDescriptors r =
     [stringClass r, booleanClass r, booleanTypeClass r, integerClass r, integerTypeClass r,
      longClass r, longTypeClass r, doubleClass r, doubleTypeClass r]"

text \<open>
  The contract of the engine that the round trip rests on: a coercion reads back what
  the constructor of the same type built.
\<close>

definition readsBack :: "engine \<Rightarrow> bool" where
  "readsBack e \<longleftrightarrow>
     (\<forall>b. JS_ToBool e (JS_NewBool b) = (if b then 1 else 0)) \<and>
     (\<forall>w. JS_ToInt32 e (JS_NewInt32 w) = Some w) \<and>
     (\<forall>w. JS_ToInt64 e (JS_NewInt64 w) = Some w) \<and>
     (\<forall>d. JS_ToFloat64 e (JS_NewFloat64 d) = Some d) \<and>
     (\<forall>s. JS_ToCString e (JS_NewString s) = Some s)"

text \<open>The script values of a kind: those its constructor builds.\<close>

fun ofKind :: "ValueKind \<Rightarrow> JSValue \<Rightarrow> bool" where
  "ofKind kString (JS_NewString s) = True"
| "ofKind kBoolean (JS_NewBool b) = True"
| "ofKind kInt (JS_NewInt32 w) = True"
| "ofKind kLong (JS_NewInt64 w) = True"
| "ofKind kDouble (JS_NewFloat64 d) = True"
| "ofKind _ _ = False"

text \<open>
  An engine for the closed instances: it reads back what the constructors built and
  reports a failure on every other value.
\<close>

definition strictEngine :: engine where
  "strictEngine =
     \<lparr>JS_ToBool = (\<lambda>v. case v of JS_NewBool b \<Rightarrow> (if b then 1 else 0) | _ \<Rightarrow> -1),
      JS_ToInt32 = (\<lambda>v. case v of JS_NewInt32 w \<Rightarrow> Some w | _ \<Rightarrow> None),
      JS_ToInt64 = (\<lambda>v. case v of JS_NewInt64 w \<Rightarrow> Some w | _ \<Rightarrow> None),
      JS_ToFloat64 = (\<lambda>v. case v of JS_NewFloat64 d \<Rightarrow> Some d | _ \<Rightarrow> None),
      JS_ToCString = (\<lambda>v. case v of JS_NewString s \<Rightarrow> Some s | _ \<Rightarrow> None)\<rparr>"

definition noEnv :: JNIEnv where
  "noEnv = \<lparr>localRefs = [], globalRefs = [], pendingException = None\<rparr>"

text \<open>Closed inputs for the instances: an engine call never fails, the empty script context.\<close>

definition noFaults :: EngineFaults where
  "noFaults = \<lparr>failNewObject = False, failSetProperty = False, failNewCFunction = False,
     failDefineProperty = False\<rparr>"

definition emptyContext :: JSContext where
  "emptyContext = \<lparr>globalObject = Map.empty, objects = [], exception = None\<rparr>"

text \<open>The references among a list of \<open>jobject\<close>s that are not null.\<close>

fun nonNull :: "jobject list \<Rightarrow> JavaObject list" where
  "nonNull [] = []"
| "nonNull (None # xs) = nonNull xs"
| "nonNull (Some x # xs) = x # nonNull xs"



text \<open>
  The message for a throwable, by what its \<open>getMessage()\<close> does: the text it
  returns, or the generic message when the call throws, returns null or returns the
  empty string.
\<close>

definition hostMessage :: "string option option \<Rightarrow> string" where
  "hostMessage getMessage =
     (case getMessage of
        Some (Some message) \<Rightarrow>
          (if message = [] then ''Host method threw an exception'' else message)
      | _ \<Rightarrow> ''Host method threw an exception'')"

text \<open>
  The method id \<open>methodInvoke\<close> that \<open>cacheJavaReferences\<close> looks up is
  \<open>java.lang.reflect.Method.invoke\<close>, and \<open>invokeBinding\<close> calls the host method
  through it. \<open>Method.invoke\<close> does not let an exception of the underlying method
  pass: it throws an \<open>InvocationTargetException\<close> that holds the method's exception
  as its cause and has no message of its own, so its \<open>getMessage()\<close> returns null.
  \<open>target\<close> is what the underlying method does with the receiver and the arguments.
\<close>

definition methodInvoke :: "(jobject \<Rightarrow> jobject list \<Rightarrow> JavaThrowable + jobject) \<Rightarrow> jobject \<Rightarrow> jobject \<Rightarrow> jobject list \<Rightarrow> JavaThrowable + jobject" where
  "methodInvoke target method receiver args =
     (case target receiver args of
        Inl thrown \<Rightarrow> Inl (JavaThrowable ''java/lang/reflect/InvocationTargetException'' (Some None))
      | Inr result \<Rightarrow> Inr result)"


definition failingHost :: HostRuntime where
  "failingHost = \<lparr>envAvailable = True, arrayAllocated = True,
     invoke = methodInvoke (\<lambda>receiver args.
        Inl (JavaThrowable ''java/lang/IllegalStateException'' (Some (Some ''boom''))))\<rparr>"


definition failBinding :: MethodBinding where
  "failBinding = \<lparr>id' = 1, objectName = ''Svc'', methodName = ''fail'',
     method' = Some (JavaOther 1), instance' = Some (JavaOther 2),
     parameterKinds = [], returnKind = kString\<rparr>"


text \<open>
  How one call may change the registry: it leaves it alone, or it takes the counter's
  value \<open>n\<close> as an identifier, and then only the entry for \<open>n\<close> can differ.
\<close>

definition registryStep :: "QuickJsContext \<Rightarrow> QuickJsContext \<Rightarrow> bool" where
  "registryStep q q' \<longleftrightarrow>
     refs q' = refs q
     \<and> ((nextBindingId q' = nextBindingId q \<and> bindings q' = bindings q)
        \<or> (nextBindingId q' = nextBindingId q + 1
            \<and> (\<forall>k. k \<noteq> nextBindingId q
                  \<longrightarrow> findBinding (bindings q') k = findBinding (bindings q) k)
            \<and> fst ` set (bindings q') \<subseteq> insert (nextBindingId q) (fst ` set (bindings q))))"





section \<open>Properties\<close>

subsection \<open>The classifier\<close>

lemma readsBack_strictEngine: "readsBack strictEngine"
  by (simp add: readsBack_def strictEngine_def)

text \<open>
  C4, as the code has it. The classifier has no state: its result is a function of the
  cached class references and the descriptor. With the cached references pairwise
  different and not null, a null descriptor gives \<open>kVoid\<close>, the String class gives
  \<open>kString\<close>, each box and its primitive type give their kind, and every other
  descriptor gives \<open>kVoid\<close> again: "unsupported" is not a value of its own, the
  callers read \<open>kVoid\<close> as unsupported.
\<close>

theorem classifyParameter_kinds:
  assumes "distinct (None # supportedDescriptors r)"
  shows "classifyParameter r None = kVoid
       \<and> classifyParameter r (stringClass r) = kString
       \<and> classifyParameter r (booleanClass r) = kBoolean
       \<and> classifyParameter r (booleanTypeClass r) = kBoolean
       \<and> classifyParameter r (integerClass r) = kInt
       \<and> classifyParameter r (integerTypeClass r) = kInt
       \<and> classifyParameter r (longClass r) = kLong
       \<and> classifyParameter r (longTypeClass r) = kLong
       \<and> classifyParameter r (doubleClass r) = kDouble
       \<and> classifyParameter r (doubleTypeClass r) = kDouble
       \<and> (d \<notin> set (supportedDescriptors r) \<longrightarrow> classifyParameter r d = kVoid)"
proof -
  define xs where "xs = supportedDescriptors r"
  have len: "length xs = 9"
    by (simp add: xs_def supportedDescriptors_def)
  have dist: "distinct xs" and nn: "None \<notin> set xs"
    using assms by (simp_all add: xs_def)
  have idx: "stringClass r = xs ! 0" "booleanClass r = xs ! 1" "booleanTypeClass r = xs ! 2"
    "integerClass r = xs ! 3" "integerTypeClass r = xs ! 4" "longClass r = xs ! 5"
    "longTypeClass r = xs ! 6" "doubleClass r = xs ! 7" "doubleTypeClass r = xs ! 8"
    by (simp_all add: xs_def supportedDescriptors_def)
  have neq: "xs ! i = xs ! j \<longleftrightarrow> i = j" if "i < 9" "j < 9" for i j
    using dist len that by (simp add: nth_eq_iff_index_eq)
  have nz: "xs ! i \<noteq> None" if "i < 9" for i
    using nn len that by (metis nth_mem)
  have c0: "classifyParameter r None = kVoid"
    by (simp add: classifyParameter_def)
  have c1: "classifyParameter r (xs ! 0) = kString"
    unfolding classifyParameter_def IsSameObject_def idx by (simp add: neq nz)
  have c2: "classifyParameter r (xs ! 1) = kBoolean"
    unfolding classifyParameter_def IsSameObject_def idx by (simp add: neq nz)
  have c3: "classifyParameter r (xs ! 2) = kBoolean"
    unfolding classifyParameter_def IsSameObject_def idx by (simp add: neq nz)
  have c4: "classifyParameter r (xs ! 3) = kInt"
    unfolding classifyParameter_def IsSameObject_def idx by (simp add: neq nz)
  have c5: "classifyParameter r (xs ! 4) = kInt"
    unfolding classifyParameter_def IsSameObject_def idx by (simp add: neq nz)
  have c6: "classifyParameter r (xs ! 5) = kLong"
    unfolding classifyParameter_def IsSameObject_def idx by (simp add: neq nz)
  have c7: "classifyParameter r (xs ! 6) = kLong"
    unfolding classifyParameter_def IsSameObject_def idx by (simp add: neq nz)
  have c8: "classifyParameter r (xs ! 7) = kDouble"
    unfolding classifyParameter_def IsSameObject_def idx by (simp add: neq nz)
  have c9: "classifyParameter r (xs ! 8) = kDouble"
    unfolding classifyParameter_def IsSameObject_def idx by (simp add: neq nz)
  have c10: "d \<notin> set (supportedDescriptors r) \<longrightarrow> classifyParameter r d = kVoid"
    by (simp add: classifyParameter_def IsSameObject_def supportedDescriptors_def)
  show ?thesis
    unfolding idx using c0 c1 c2 c3 c4 c5 c6 c7 c8 c9 c10 by blast
qed

theorem classifyParameter_kinds_witness:
  "classifyParameter cachedJavaRefs None = kVoid
   \<and> classifyParameter cachedJavaRefs (Some (JavaClass ''java/lang/String'')) = kString
   \<and> classifyParameter cachedJavaRefs (Some (JavaClass ''boolean'')) = kBoolean
   \<and> classifyParameter cachedJavaRefs (Some (JavaClass ''java/lang/Integer'')) = kInt
   \<and> classifyParameter cachedJavaRefs (Some (JavaClass ''long'')) = kLong
   \<and> classifyParameter cachedJavaRefs (Some (JavaClass ''java/lang/Double'')) = kDouble
   \<and> classifyParameter cachedJavaRefs (Some (JavaClass ''java/util/List'')) = kVoid"
  using classifyParameter_kinds [of cachedJavaRefs "Some (JavaClass ''java/util/List'')"]
  by (simp add: supportedDescriptors_def cachedJavaRefs_def)

text \<open>
  C4 as stated fails: the descriptor of \<open>java.util.List\<close>, which is none of the
  supported ones, is classified as \<open>kVoid\<close>, the very value a null descriptor gets.
\<close>

theorem classifyParameter_unsupported_is_kVoid:
  "classifyParameter cachedJavaRefs (Some (JavaClass ''java/util/List'')) = kVoid
   \<and> classifyParameter cachedJavaRefs (Some (JavaClass ''java/util/List''))
       = classifyParameter cachedJavaRefs None"
  by (simp add: classifyParameter_def IsSameObject_def cachedJavaRefs_def)

subsection \<open>The converters\<close>

text \<open>
  C7. A null host value becomes the default of the kind: script null for String, false
  for Boolean, the number zero for Int32 and Int64, 0.0 for Double; for Void the result
  is \<open>JS_UNDEFINED\<close> whatever the host value is.
\<close>

theorem convertJavaToJs_null_defaults:
  "convertJavaToJs kString None = Some JS_NULL
   \<and> convertJavaToJs kBoolean None = Some JS_FALSE
   \<and> convertJavaToJs kInt None = Some (JS_NewInt32 0)
   \<and> convertJavaToJs kLong None = Some (JS_NewInt32 0)
   \<and> convertJavaToJs kDouble None = Some (JS_NewFloat64 0)
   \<and> scriptInteger (JS_NewInt32 0) = Some 0
   \<and> convertJavaToJs kVoid v = Some JS_UNDEFINED"
  by (simp add: convertJavaToJs_def)

text \<open>
  C8. For kind Int64 a host \<open>Long\<close> is unboxed and handed to \<open>JS_NewInt64\<close> as it
  is, and the script number built stands for exactly that 64-bit integer.
\<close>

theorem convertJavaToJs_long_exact:
  "convertJavaToJs kLong (Some (JavaLong longValue)) = Some (JS_NewInt64 longValue)
   \<and> Option.bind (convertJavaToJs kLong (Some (JavaLong longValue))) scriptInteger
       = Some (sint longValue)"
  by (simp add: convertJavaToJs_def)

text \<open>
  C1. With an engine whose coercions read back what its constructors built, every
  script value of a supported kind comes back unchanged from the trip to the host and
  back; a script null of kind String becomes a host null, and that becomes a script
  null again.
\<close>

theorem convert_roundtrip:
  assumes "readsBack e"
  shows "(ofKind kind v \<longrightarrow> convertJavaToJs kind (fst (convertJsToJava e kind v env)) = Some v)
       \<and> fst (convertJsToJava e kString JS_NULL env) = None
       \<and> convertJavaToJs kString None = Some JS_NULL"
  using assms
  by (cases kind; cases v)
     (simp_all add: readsBack_def convertJsToJava_def convertJavaToJs_def returnLocal_def
        JS_IsNull_def JS_IsUndefined_def)

theorem convert_roundtrip_witness:
  "convertJavaToJs kInt (fst (convertJsToJava strictEngine kInt (JS_NewInt32 5) noEnv))
     = Some (JS_NewInt32 5)
   \<and> convertJavaToJs kString
        (fst (convertJsToJava strictEngine kString (JS_NewString ''abc'') noEnv))
     = Some (JS_NewString ''abc'')"
  using convert_roundtrip [OF readsBack_strictEngine, of kInt "JS_NewInt32 5" noEnv]
        convert_roundtrip [OF readsBack_strictEngine, of kString "JS_NewString ''abc''" noEnv]
  by simp

subsection \<open>ensureGlobalObject\<close>

text \<open>
  C9. \<open>ensureGlobalObject\<close> is idempotent: when a call returns true with an object,
  any further call for the same name returns true with the same object and leaves the
  script context as it is, whether or not the engine could allocate then. When the
  global property is absent (undefined) or null and the engine does not fail, the call
  makes a fresh object, installs it on the global object and returns it; when the
  property holds anything else, the call returns that value and changes nothing.
\<close>

theorem ensureGlobalObject_idempotent:
  "(ensureGlobalObject f name ctx = (Some v, ctx')
      \<longrightarrow> ensureGlobalObject f' name ctx' = (Some v, ctx'))
   \<and> (\<not> failNewObject f \<and> \<not> failSetProperty f
        \<and> (JS_GetPropertyStr (globalObject ctx) name = JS_UNDEFINED
             \<or> JS_GetPropertyStr (globalObject ctx) name = JS_NULL)
      \<longrightarrow> ensureGlobalObject f name ctx =
            (Some (JS_Object (length (objects ctx))),
             ctx\<lparr>objects := objects ctx @ [JSObject Map.empty None],
                 globalObject := (globalObject ctx)(name \<mapsto> JS_Object (length (objects ctx)))\<rparr>))
   \<and> (JS_GetPropertyStr (globalObject ctx) name \<noteq> JS_UNDEFINED
        \<and> JS_GetPropertyStr (globalObject ctx) name \<noteq> JS_NULL
      \<longrightarrow> ensureGlobalObject f name ctx
            = (Some (JS_GetPropertyStr (globalObject ctx) name), ctx))"
proof -
  have again: "ensureGlobalObject f' name ctx' = (Some v, ctx')"
    if "ensureGlobalObject f name ctx = (Some v, ctx')"
    using that
    by (auto simp add: ensureGlobalObject_def JS_GetPropertyStr_def JS_NewObject_def
          JS_SetPropertyStr_def JS_IsUndefined_def JS_IsNull_def JS_IsException_def Let_def
        split: if_splits option.splits)
  have fresh: "ensureGlobalObject f name ctx =
       (Some (JS_Object (length (objects ctx))),
        ctx\<lparr>objects := objects ctx @ [JSObject Map.empty None],
            globalObject := (globalObject ctx)(name \<mapsto> JS_Object (length (objects ctx)))\<rparr>)"
    if "\<not> failNewObject f" "\<not> failSetProperty f"
       "JS_GetPropertyStr (globalObject ctx) name = JS_UNDEFINED
          \<or> JS_GetPropertyStr (globalObject ctx) name = JS_NULL"
    using that
    by (auto simp add: ensureGlobalObject_def JS_NewObject_def
          JS_SetPropertyStr_def JS_IsUndefined_def JS_IsNull_def JS_IsException_def Let_def)
  have reuse: "ensureGlobalObject f name ctx
            = (Some (JS_GetPropertyStr (globalObject ctx) name), ctx)"
    if "JS_GetPropertyStr (globalObject ctx) name \<noteq> JS_UNDEFINED"
       "JS_GetPropertyStr (globalObject ctx) name \<noteq> JS_NULL"
    using that
    by (simp add: ensureGlobalObject_def JS_IsUndefined_def JS_IsNull_def Let_def)
  show ?thesis
    using again fresh reuse by blast
qed

theorem ensureGlobalObject_idempotent_witness:
  "ensureGlobalObject noFaults ''Svc'' emptyContext
     = (Some (JS_Object 0),
        emptyContext\<lparr>objects := [JSObject Map.empty None],
                      globalObject := [''Svc'' \<mapsto> JS_Object 0]\<rparr>)
   \<and> ensureGlobalObject noFaults ''Svc''
        (emptyContext\<lparr>objects := [JSObject Map.empty None],
                      globalObject := [''Svc'' \<mapsto> JS_Object 0]\<rparr>)
     = (Some (JS_Object 0),
        emptyContext\<lparr>objects := [JSObject Map.empty None],
                      globalObject := [''Svc'' \<mapsto> JS_Object 0]\<rparr>)"
  using ensureGlobalObject_idempotent [of noFaults "''Svc''" emptyContext "JS_Object 0"
          "emptyContext\<lparr>objects := [JSObject Map.empty None],
                      globalObject := [''Svc'' \<mapsto> JS_Object 0]\<rparr>" noFaults]
  by (simp add: noFaults_def emptyContext_def JS_GetPropertyStr_def)


subsection \<open>The dispatcher: arguments and host exceptions\<close>


lemma nonNull_Cons: "nonNull (x # xs) = nonNull [x] @ nonNull xs"
  by (cases x) simp_all

lemma convertJsToJava_returnLocal:
  "convertJsToJava e kind v env = returnLocal (fst (convertJsToJava e kind v env')) env"
  by (cases kind)
     (simp_all add: convertJsToJava_def returnLocal_def Let_def split: option.splits)


lemma convertArguments_effect:
  "\<exists>new. (fst (convertArguments e argv index kinds localArgs env) = Inl (localArgs @ new)
           \<or> fst (convertArguments e argv index kinds localArgs env) = Inr (localArgs @ new))
        \<and> snd (convertArguments e argv index kinds localArgs env)
            = env\<lparr>localRefs := rev (nonNull new) @ localRefs env\<rparr>"
proof (induction kinds arbitrary: index localArgs env)
  case Nil
  show ?case by (rule exI [of _ "[]"]) simp
next
  case (Cons kind kinds)
  define argument where "argument = (if index < length argv then argv ! index else JS_UNDEFINED)"
  define converted where "converted = fst (convertJsToJava e kind argument env)"
  define env1 where "env1 = snd (convertJsToJava e kind argument env)"
  have c: "convertJsToJava e kind argument env = (converted, env1)"
    by (simp add: converted_def env1_def)
  have env1: "env1 = env\<lparr>localRefs := nonNull [converted] @ localRefs env\<rparr>"
    using convertJsToJava_returnLocal [of e kind argument env env]
    by (cases converted) (simp_all add: env1_def converted_def returnLocal_def)
  show ?case
  proof (cases "converted = None \<and> kind \<noteq> kString")
    case True
    then have "convertArguments e argv index (kind # kinds) localArgs env = (Inl localArgs, env1)"
      using c by (simp add: argument_def)
    then show ?thesis
      using True env1 by (intro exI [of _ "[]"]) simp
  next
    case False
    then have step: "convertArguments e argv index (kind # kinds) localArgs env
        = convertArguments e argv (Suc index) kinds (localArgs @ [converted]) env1"
      using c by (auto simp add: argument_def)
    obtain new where new:
      "fst (convertArguments e argv (Suc index) kinds (localArgs @ [converted]) env1)
          = Inl ((localArgs @ [converted]) @ new)
       \<or> fst (convertArguments e argv (Suc index) kinds (localArgs @ [converted]) env1)
          = Inr ((localArgs @ [converted]) @ new)"
      "snd (convertArguments e argv (Suc index) kinds (localArgs @ [converted]) env1)
          = env1\<lparr>localRefs := rev (nonNull new) @ localRefs env1\<rparr>"
      using Cons.IH [of "Suc index" "localArgs @ [converted]" env1] by blast
    have refs: "env1\<lparr>localRefs := rev (nonNull new) @ localRefs env1\<rparr>
        = env\<lparr>localRefs := rev (nonNull (converted # new)) @ localRefs env\<rparr>"
      by (cases converted) (simp_all add: env1)
    show ?thesis
    proof (intro exI [of _ "converted # new"] conjI)
      show "fst (convertArguments e argv index (kind # kinds) localArgs env)
              = Inl (localArgs @ converted # new)
          \<or> fst (convertArguments e argv index (kind # kinds) localArgs env)
              = Inr (localArgs @ converted # new)"
        using new(1) unfolding step by simp
      show "snd (convertArguments e argv index (kind # kinds) localArgs env)
              = env\<lparr>localRefs := rev (nonNull (converted # new)) @ localRefs env\<rparr>"
        unfolding step new(2) refs ..
    qed
  qed
qed

lemma convertArguments_fst_env:
  "fst (convertArguments e argv index kinds localArgs env)
     = fst (convertArguments e argv index kinds localArgs env')"
proof (induction kinds arbitrary: index localArgs env env')
  case Nil
  show ?case by simp
next
  case (Cons kind kinds)
  define argument where "argument = (if index < length argv then argv ! index else JS_UNDEFINED)"
  define converted where "converted = fst (convertJsToJava e kind argument env)"
  have same: "fst (convertJsToJava e kind argument env') = converted"
    using convertJsToJava_returnLocal [of e kind argument env' env]
    by (simp add: converted_def returnLocal_def split: option.splits)
  define env1 where "env1 = snd (convertJsToJava e kind argument env)"
  define env1' where "env1' = snd (convertJsToJava e kind argument env')"
  have c: "convertJsToJava e kind argument env = (converted, env1)"
          "convertJsToJava e kind argument env' = (converted, env1')"
    using same by (simp_all add: converted_def env1_def env1'_def prod_eq_iff)
  show ?case
  proof (cases "converted = None \<and> kind \<noteq> kString")
    case True
    then show ?thesis
      using c by (simp add: argument_def [symmetric])
  next
    case False
    have "convertArguments e argv index (kind # kinds) localArgs env
        = convertArguments e argv (Suc index) kinds (localArgs @ [converted]) env1"
      using False c(1) by (auto simp add: argument_def [symmetric])
    moreover have "convertArguments e argv index (kind # kinds) localArgs env'
        = convertArguments e argv (Suc index) kinds (localArgs @ [converted]) env1'"
      using False c(2) by (auto simp add: argument_def [symmetric])
    ultimately show ?thesis
      using Cons.IH by simp
  qed
qed


lemma fold_DeleteLocalRef:
  "fold DeleteLocalRef xs env = env\<lparr>localRefs := fold remove1 (nonNull xs) (localRefs env)\<rparr>"
  by (induction xs arbitrary: env rule: nonNull.induct) (simp_all add: DeleteLocalRef_def)

lemma fold_remove1_all:
  "mset ys = mset P \<Longrightarrow> fold remove1 ys (P @ L) = L"
proof (induction ys arbitrary: P)
  case Nil
  then show ?case by simp
next
  case (Cons y ys)
  then have y: "y \<in> set P"
    by (metis list.set_intros(1) mset_eq_setD)
  have "mset ys = mset (remove1 y P)"
    using Cons.prems by (metis add_mset_remove_trivial mset.simps(2) mset_remove1)
  from Cons.IH [OF this] y show ?case
    by (simp add: remove1_append)
qed

lemma convertArguments_result:
  obtains args env2 where
    "convertArguments e argv 0 kinds [] env1 = (args, env2)"
    "env2 = env1\<lparr>localRefs := rev (nonNull (case args of Inl a \<Rightarrow> a | Inr a \<Rightarrow> a)) @ localRefs env1\<rparr>"
proof -
  obtain new where new:
    "fst (convertArguments e argv 0 kinds [] env1) = Inl ([] @ new)
       \<or> fst (convertArguments e argv 0 kinds [] env1) = Inr ([] @ new)"
    "snd (convertArguments e argv 0 kinds [] env1)
       = env1\<lparr>localRefs := rev (nonNull new) @ localRefs env1\<rparr>"
    using convertArguments_effect [of e argv 0 kinds "[]" env1] by blast
  show ?thesis
  proof (rule that [of "fst (convertArguments e argv 0 kinds [] env1)"
                       "snd (convertArguments e argv 0 kinds [] env1)"])
    show "convertArguments e argv 0 kinds [] env1
        = (fst (convertArguments e argv 0 kinds [] env1),
           snd (convertArguments e argv 0 kinds [] env1))"
      by simp
    show "snd (convertArguments e argv 0 kinds [] env1)
        = env1\<lparr>localRefs := rev (nonNull (case fst (convertArguments e argv 0 kinds [] env1)
             of Inl a \<Rightarrow> a | Inr a \<Rightarrow> a)) @ localRefs env1\<rparr>"
      using new by auto
  qed
qed

lemma release_arguments:
  "fold remove1 (nonNull args) (remove1 a (rev (nonNull args) @ a # L)) = L"
  "remove1 a (fold remove1 (nonNull args) (rev (nonNull args) @ a # L)) = L"
proof -
  have "fold remove1 (a # nonNull args) ((rev (nonNull args) @ [a]) @ L) = L"
    by (rule fold_remove1_all) simp
  then show "fold remove1 (nonNull args) (remove1 a (rev (nonNull args) @ a # L)) = L"
    by simp
  have "fold remove1 (nonNull args @ [a]) ((rev (nonNull args) @ [a]) @ L) = L"
    by (rule fold_remove1_all) simp
  then show "remove1 a (fold remove1 (nonNull args) (rev (nonNull args) @ a # L)) = L"
    by simp
qed

lemma release_arguments_only:
  "fold remove1 (nonNull args) (rev (nonNull args) @ L) = L"
  by (rule fold_remove1_all) simp


lemma describeThrowable_message:
  "describeThrowable env (Some (JavaThrowable cls getMessage))
     = (hostMessage getMessage,
        case getMessage of None \<Rightarrow> env\<lparr>pendingException := None\<rparr> | Some m \<Rightarrow> env)"
  by (cases getMessage; cases "the getMessage")
     (simp_all add: describeThrowable_def hostMessage_def returnLocal_def DeleteLocalRef_def
        ExceptionClear_def toUtfString_def Let_def)

lemma invokeBinding_exception:
  assumes env: "envAvailable h" and arr: "arrayAllocated h \<or> parameterKinds b = []"
    and conv: "fst (convertArguments e argv 0 (parameterKinds b) [] env) = Inr args"
    and thrown: "invoke h (method' b) (instance' b) args = Inl (JavaThrowable cls getMessage)"
  shows "invokeBinding e h b argv ctx env =
           (Some JS_EXCEPTION,
            ctx\<lparr>exception := Some (InternalError (hostMessage getMessage))\<rparr>,
            env\<lparr>pendingException := None\<rparr>)"
proof -
  define n where "n = length (parameterKinds b)"
  define t where "t = JavaThrowable cls getMessage"
  show ?thesis
  proof (cases "n = 0")
    case True
    then have kinds: "parameterKinds b = []"
      by (simp add: n_def)
    then have args: "args = []"
      using conv by simp
    show ?thesis
      using env thrown
      by (simp add: invokeBinding_def kinds args Let_def CallObjectMethod_def DeleteLocalRef_def
            ExceptionCheck_def returnLocal_def ExceptionClear_def describeThrowable_message
            JS_ThrowInternalError_def split: option.splits)
  next
    case False
    then have pos: "0 < n" and arr': "arrayAllocated h"
      using arr by (auto simp add: n_def)
    define a where "a = JavaObjectArray n"
    define env1 where "env1 = env\<lparr>localRefs := a # localRefs env\<rparr>"
    have alloc: "NewObjectArray h n env = (Some a, env1)"
      using arr' by (simp add: NewObjectArray_def returnLocal_def a_def env1_def)
    obtain res env2 where c: "convertArguments e argv 0 (parameterKinds b) [] env1 = (res, env2)"
      and env2: "env2 = env1\<lparr>localRefs := rev (nonNull (case res of Inl a \<Rightarrow> a | Inr a \<Rightarrow> a))
                                        @ localRefs env1\<rparr>"
      by (rule convertArguments_result)
    have res: "res = Inr args"
      using c conv convertArguments_fst_env [of e argv 0 "parameterKinds b" "[]" env1 env]
      by simp
    define env5 where "env5 = env\<lparr>pendingException := Some t\<rparr>"
    have call: "CallObjectMethod h (method' b) (instance' b) args env2
                  = (None, env2\<lparr>pendingException := Some t\<rparr>)"
      using thrown by (simp add: CallObjectMethod_def t_def)
    have released: "DeleteLocalRef (Some a)
                      (fold DeleteLocalRef args (env2\<lparr>pendingException := Some t\<rparr>)) = env5"
      unfolding fold_DeleteLocalRef
      by (simp add: DeleteLocalRef_def env2 res env1_def env5_def release_arguments)
    have rest: "DeleteLocalRef (Some (JavaThrown t))
                  (snd (describeThrowable
                          (ExceptionClear (snd (returnLocal (Some (JavaThrown t)) env5)))
                          (Some t)))
                = env\<lparr>pendingException := None\<rparr>"
      by (cases getMessage)
         (simp_all add: t_def describeThrowable_message returnLocal_def ExceptionClear_def
            DeleteLocalRef_def env5_def)
    have msg: "fst (describeThrowable
                          (ExceptionClear (snd (returnLocal (Some (JavaThrown t)) env5)))
                          (Some t)) = hostMessage getMessage"
      by (simp add: t_def describeThrowable_message)
    have pend: "pendingException env5 = Some t" "ExceptionCheck env5"
      by (simp_all add: env5_def ExceptionCheck_def)
    show ?thesis
      using env pos alloc c call released rest msg pend
      by (simp add: invokeBinding_def n_def [symmetric] Let_def res split_beta
            JS_ThrowInternalError_def returnLocal_def)
  qed
qed




text \<open>
  Whatever the underlying host method throws, the exception that \<open>invokeBinding\<close>
  finds pending is the wrapper of \<open>Method.invoke\<close>, whose message is null: the script
  error carries the generic message, no host exception stays pending, and the local
  references are those from before the call.
\<close>

lemma invokeBinding_wrapped_exception:
  assumes "envAvailable h"
    and "arrayAllocated h \<or> parameterKinds b = []"
    and "fst (convertArguments e argv 0 (parameterKinds b) [] env) = Inr args"
    and "invoke h = methodInvoke target"
    and "target (instance' b) args = Inl thrown"
  shows "invokeBinding e h b argv ctx env =
           (Some JS_EXCEPTION,
            ctx\<lparr>exception := Some (InternalError ''Host method threw an exception'')\<rparr>,
            env\<lparr>pendingException := None\<rparr>)"
proof -
  have "invoke h (method' b) (instance' b) args
          = Inl (JavaThrowable ''java/lang/reflect/InvocationTargetException'' (Some None))"
    using assms(4,5) by (simp add: methodInvoke_def)
  from invokeBinding_exception [OF assms(1,2,3) this, of ctx] show ?thesis
    by (simp add: hostMessage_def)
qed

text \<open>
  C6 against the code. The claim asks that a host method which always throws with the
  message "boom" gives a script error whose message is "boom". The code gives the
  generic message instead: \<open>Svc.fail()\<close> is invoked through \<open>Method.invoke\<close>, the
  exception pending afterwards is the \<open>InvocationTargetException\<close>, and
  \<open>describeThrowable\<close> reads \<open>getMessage()\<close> of that exception only, never of its
  cause. The rest of the claim holds at this input: the result is a script error, and
  no host exception is left pending.
\<close>

theorem host_exception_message_lost:
  "invokeBinding strictEngine failingHost failBinding [] emptyContext noEnv
     = (Some JS_EXCEPTION,
        emptyContext\<lparr>exception := Some (InternalError ''Host method threw an exception'')\<rparr>,
        noEnv)
   \<and> ''Host method threw an exception'' \<noteq> ''boom''"
  using invokeBinding_exception [of failingHost failBinding strictEngine "[]" noEnv "[]"
          "''java/lang/reflect/InvocationTargetException''" "Some None" emptyContext]
  by (simp add: failingHost_def failBinding_def noEnv_def methodInvoke_def hostMessage_def)


subsection \<open>The registry\<close>

lemma findBinding_emplace_other:
  "k' \<noteq> k \<Longrightarrow> findBinding (emplace k b bs) k' = findBinding bs k'"
  by (simp add: emplace_def findBinding_def map_add_def split: option.splits)

lemma findBinding_erase_other:
  "k' \<noteq> k \<Longrightarrow> findBinding (erase k bs) k' = findBinding bs k'"
  by (induction bs) (auto simp add: erase_def findBinding_def)

lemma keys_emplace: "fst ` set (emplace k b bs) \<subseteq> insert k (fst ` set bs)"
  by (auto simp add: emplace_def)

lemma keys_erase: "fst ` set (erase k bs) \<subseteq> fst ` set bs"
  by (auto simp add: erase_def)






lemma DeleteGlobalRef_eq:
  "DeleteGlobalRef x env = env\<lparr>globalRefs := fold remove1 (nonNull [x]) (globalRefs env)\<rparr>"
  by (cases x) (simp_all add: DeleteGlobalRef_def)

lemma throwQuickJsException_eq:
  "\<exists>t. throwQuickJsException env r message = env\<lparr>pendingException := Some t\<rparr>"
  by (auto simp add: throwQuickJsException_def ThrowNew_def)










lemma sint_succ: "sint (n :: 32 word) < 2147483647 \<Longrightarrow> sint (n + 1) = sint n + 1"
proof -
  assume a: "sint n < 2147483647"
  have lo: "- 2147483648 \<le> sint n"
    using sint_ge [of n] by simp
  have "sint (n + 1) = signed_take_bit 31 (sint n + sint (1 :: 32 word))"
    by (simp add: sint_word_ariths)
  also have "\<dots> = sint n + 1"
    using a lo by (simp add: signed_take_bit_int_eq_self)
  finally show ?thesis .
qed

lemma registryStep_refl: "registryStep q q"
  by (simp add: registryStep_def)

lemma rollback_registry:
  assumes "rollback k env (q\<lparr>bindings := emplace k b (bindings q), nextBindingId := k + 1\<rparr>) = (env3, q2)"
    and "k = nextBindingId q"
  shows "registryStep q q2 \<and> nextBindingId q2 = nextBindingId q + 1"
proof -
  define q1 where "q1 = q\<lparr>bindings := emplace k b (bindings q), nextBindingId := k + 1\<rparr>"
  have "q2 = q1 \<or> q2 = q1\<lparr>bindings := erase k (bindings q1)\<rparr>"
    using assms(1) by (auto simp add: rollback_def q1_def split: option.splits)
  then show ?thesis
  proof
    assume "q2 = q1"
    then show ?thesis
      using assms(2) keys_emplace [of k b "bindings q"]
      by (simp add: registryStep_def q1_def findBinding_emplace_other)
  next
    assume "q2 = q1\<lparr>bindings := erase k (bindings q1)\<rparr>"
    then show ?thesis
      using assms(2) keys_emplace [of k b "bindings q"]
        keys_erase [of k "emplace k b (bindings q)"]
      by (auto simp add: registryStep_def q1_def findBinding_emplace_other findBinding_erase_other)
  qed
qed

lemma nativeRegister_registry:
  assumes q: "quick m = Some q"
  shows "\<exists>q'. quick (nativeRegister f objName metName method instance parameterTypes returnType m)
                 = Some q'
            \<and> registryStep q q'
            \<and> (toUtfString objName \<noteq> [] \<and> toUtfString metName \<noteq> []
                \<and> classifyParameters (refs q)
                     (case parameterTypes of None \<Rightarrow> [] | Some ts \<Rightarrow> ts) [] \<noteq> None
                \<and> classifyReturn (refs q) returnType \<noteq> None
               \<longrightarrow> nextBindingId q' = nextBindingId q + 1)"
proof -
  define types where "types = (case parameterTypes of None \<Rightarrow> [] | Some ts \<Rightarrow> ts)"
  obtain bm env1 where n1: "NewGlobalRef method (jni m) = (bm, env1)"
    by (cases "NewGlobalRef method (jni m)")
  obtain bi env2 where n2: "NewGlobalRef instance env1 = (bi, env2)"
    by (cases "NewGlobalRef instance env1")
  show ?thesis
  proof (cases "toUtfString objName = [] \<or> toUtfString metName = []")
    case True
    then show ?thesis
      using q by (auto simp add: nativeRegister_def Let_def registryStep_refl)
  next
    case names: False
    show ?thesis
    proof (cases "classifyParameters (refs q) types []")
      case None
      then show ?thesis
        using q names n1 n2
        by (auto simp add: nativeRegister_def Let_def types_def [symmetric] registryStep_refl)
    next
      case (Some kinds)
      note kinds = this
      show ?thesis
      proof (cases "classifyReturn (refs q) returnType")
        case None
        then show ?thesis
          using q names n1 n2 kinds
          by (auto simp add: nativeRegister_def Let_def types_def [symmetric] registryStep_refl)
      next
        case (Some kind)
        note kind = this
        define b where "b = \<lparr>id' = nextBindingId q, objectName = toUtfString objName,
            methodName = toUtfString metName, method' = bm, instance' = bi,
            parameterKinds = kinds, returnKind = kind\<rparr>"
        define q1 where "q1 = q\<lparr>bindings := emplace (nextBindingId q) b (bindings q),
            nextBindingId := nextBindingId q + 1\<rparr>"
        obtain env3 q2 where rb: "rollback (nextBindingId q) env2 q1 = (env3, q2)"
          by (cases "rollback (nextBindingId q) env2 q1")
        have q2: "registryStep q q2" "nextBindingId q2 = nextBindingId q + 1"
          using rollback_registry [OF rb [unfolded q1_def]] by simp_all
        have q1: "registryStep q q1" "nextBindingId q1 = nextBindingId q + 1"
          using keys_emplace [of "nextBindingId q" b "bindings q"]
          by (simp_all add: registryStep_def q1_def findBinding_emplace_other)
        obtain r js1 where eg: "ensureGlobalObject f (toUtfString objName) (js m) = (r, js1)"
          by (cases "ensureGlobalObject f (toUtfString objName) (js m)")
        show ?thesis
        proof (cases r)
          case None
          then show ?thesis
            using q names n1 n2 kinds kind eg rb q2
            by (simp add: nativeRegister_def Let_def types_def [symmetric] b_def [symmetric]
                  q1_def [symmetric])
        next
          case (Some objectValue)
          obtain fn js2 where nf: "JS_NewCFunctionMagic f (toUtfString metName) (length types)
                                      (nextBindingId q) js1 = (fn, js2)"
            by (cases "JS_NewCFunctionMagic f (toUtfString metName) (length types)
                                      (nextBindingId q) js1")
          obtain status js3 where dp: "JS_DefinePropertyValueStr f objectValue (toUtfString metName) fn js2
                                         = (status, js3)"
            by (cases "JS_DefinePropertyValueStr f objectValue (toUtfString metName) fn js2")
          show ?thesis
            using q names n1 n2 kinds kind eg Some rb nf dp q1 q2
            by (simp add: nativeRegister_def Let_def types_def [symmetric] b_def [symmetric]
                  q1_def [symmetric])
        qed
      qed
    qed
  qed
qed

lemma step_registry:
  assumes "quick m = Some q"
  shows "\<exists>q'. quick (step c m) = Some q' \<and> registryStep q q'"
proof (cases c)
  case (Register f objName metName mth receiver parameterTypes returnType)
  then show ?thesis
    using nativeRegister_registry [OF assms, of f objName metName mth receiver
        parameterTypes returnType]
    by auto
next
  case (Dispatch e h magic argv)
  then show ?thesis
    using assms
    by (auto simp add: methodDispatcher_def Let_def split_beta registryStep_refl
        split: option.splits)
next
  case (Script g)
  then show ?thesis
    using assms by (simp add: registryStep_refl)
qed

lemma assignedId_step:
  assumes "quick m = Some q" and "quick (step c m) = Some q'" and "registryStep q q'"
  shows "assignedId c m = (if nextBindingId q' = nextBindingId q then None
                           else Some (nextBindingId q))"
  using assms by (simp add: assignedId_def)

text \<open>The identifiers a run assigns are the consecutive values of the counter.\<close>

lemma assignedIds_consecutive:
  assumes "quick m = Some q"
  shows "\<exists>q'. quick (run calls m) = Some q' \<and> refs q' = refs q
           \<and> nextBindingId q' = nextBindingId q + of_nat (length (assignedIds calls m))
           \<and> assignedIds calls m
               = map (\<lambda>i. nextBindingId q + of_nat i) [0..<length (assignedIds calls m)]
           \<and> length (assignedIds calls m) \<le> length calls
           \<and> fst ` set (bindings q') \<subseteq> fst ` set (bindings q) \<union> set (assignedIds calls m)"
  using assms
proof (induction calls arbitrary: m q)
  case Nil
  then show ?case by (simp add: run_def)
next
  case (Cons c calls)
  obtain q1 where q1: "quick (step c m) = Some q1" "registryStep q q1"
    using step_registry [OF Cons.prems] by blast
  obtain q' where q': "quick (run calls (step c m)) = Some q'" "refs q' = refs q1"
    "nextBindingId q' = nextBindingId q1 + of_nat (length (assignedIds calls (step c m)))"
    "assignedIds calls (step c m)
       = map (\<lambda>i. nextBindingId q1 + of_nat i) [0..<length (assignedIds calls (step c m))]"
    "length (assignedIds calls (step c m)) \<le> length calls"
    "fst ` set (bindings q') \<subseteq> fst ` set (bindings q1) \<union> set (assignedIds calls (step c m))"
    using Cons.IH [OF q1(1)] by blast
  have run: "run (c # calls) m = run calls (step c m)"
    by (simp add: run_def)
  note a = assignedId_step [OF Cons.prems q1]
  show ?case
  proof (cases "nextBindingId q1 = nextBindingId q")
    case True
    then have same: "bindings q1 = bindings q"
      using q1(2) by (auto simp add: registryStep_def)
    have ids: "assignedIds (c # calls) m = assignedIds calls (step c m)"
      using a True by simp
    show ?thesis
      unfolding run ids
      using q' q1(2) True same
      by (intro exI [of _ q']) (auto simp add: registryStep_def)
  next
    case False
    then have next1: "nextBindingId q1 = nextBindingId q + 1"
      and keys: "fst ` set (bindings q1) \<subseteq> insert (nextBindingId q) (fst ` set (bindings q))"
      using q1(2) by (auto simp add: registryStep_def)
    define l where "l = length (assignedIds calls (step c m))"
    have ids: "assignedIds (c # calls) m = nextBindingId q # assignedIds calls (step c m)"
      using a False by simp
    have shift: "map (\<lambda>i. nextBindingId q + of_nat i) [0..<Suc l]
        = nextBindingId q # map (\<lambda>i. nextBindingId q1 + of_nat i) [0..<l]"
      by (simp add: upt_conv_Cons map_Suc_upt [symmetric] next1 ac_simps del: upt_Suc)
    have "assignedIds (c # calls) m
        = map (\<lambda>i. nextBindingId q + of_nat i) [0..<length (assignedIds (c # calls) m)]"
      unfolding ids using q'(4) shift by (simp add: l_def del: upt_Suc)
    moreover have "nextBindingId q' = nextBindingId q + of_nat (length (assignedIds (c # calls) m))"
      unfolding ids using q'(3) next1 by simp
    moreover have "fst ` set (bindings q')
        \<subseteq> fst ` set (bindings q) \<union> set (assignedIds (c # calls) m)"
      unfolding ids using q'(6) keys by auto
    moreover have "refs q' = refs q"
      using q'(2) q1(2) by (simp add: registryStep_def)
    ultimately show ?thesis
      unfolding run using q'(1) q'(5) ids
      by (intro exI [of _ q']) simp
  qed
qed

lemma sint_one_plus:
  "i < 2147483647 \<Longrightarrow> sint (1 + of_nat i :: 32 word) = 1 + int i"
proof (induction i)
  case 0
  show ?case by simp
next
  case (Suc i)
  then have ih: "sint (1 + of_nat i :: 32 word) = 1 + int i"
    by simp
  have "sint ((1 + of_nat i) + 1 :: 32 word) = sint (1 + of_nat i :: 32 word) + 1"
    by (rule sint_succ) (use Suc.prems ih in simp)
  then show ?case
    using ih by (simp add: ac_simps)
qed

lemma nativeCreate_quick:
  "quick (nativeCreate ctx env) = Some \<lparr>refs = cachedJavaRefs, bindings = [], nextBindingId = 1\<rparr>"
  by (simp add: nativeCreate_def)

lemma fresh_run:
  obtains q' where "quick (run calls (nativeCreate ctx env)) = Some q'"
    and "refs q' = cachedJavaRefs"
    and "nextBindingId q' = 1 + of_nat (length (assignedIds calls (nativeCreate ctx env)))"
    and "assignedIds calls (nativeCreate ctx env)
           = map (\<lambda>i. 1 + of_nat i) [0..<length (assignedIds calls (nativeCreate ctx env))]"
    and "length (assignedIds calls (nativeCreate ctx env)) \<le> length calls"
    and "fst ` set (bindings q') \<subseteq> set (assignedIds calls (nativeCreate ctx env))"
  using assignedIds_consecutive [OF nativeCreate_quick, of calls ctx env]
  by auto

lemma fresh_ids_sint:
  assumes "length (assignedIds calls (nativeCreate ctx env)) \<le> 2147483647"
  shows "map sint (assignedIds calls (nativeCreate ctx env))
           = map (\<lambda>i. 1 + int i) [0..<length (assignedIds calls (nativeCreate ctx env))]"
proof -
  define ids where "ids = assignedIds calls (nativeCreate ctx env)"
  obtain q' where ids: "ids = map (\<lambda>i. 1 + of_nat i) [0..<length ids]"
    unfolding ids_def by (rule fresh_run)
  have len: "length ids \<le> 2147483647"
    using assms by (simp add: ids_def)
  have "map sint (map (\<lambda>i. 1 + of_nat i :: 32 word) [0..<length ids])
          = map (\<lambda>i. 1 + int i) [0..<length ids]"
    using len by (simp add: sint_one_plus)
  then show ?thesis
    using ids unfolding ids_def by simp
qed




















text \<open>
  In a context made by \<open>nativeCreate\<close> no binding is stored under the identifier that
  comes next, as long as fewer than \<open>2^31 - 1\<close> identifiers have been assigned.
\<close>

lemma fresh_run_slot_free:
  assumes "length (assignedIds calls (nativeCreate ctx env)) < 2147483647"
    and "quick (run calls (nativeCreate ctx env)) = Some q"
  shows "findBinding (bindings q) (nextBindingId q) = None"
proof -
  define ids where "ids = assignedIds calls (nativeCreate ctx env)"
  obtain q0 where q0: "quick (run calls (nativeCreate ctx env)) = Some q0"
    and counter: "nextBindingId q0 = 1 + of_nat (length ids)"
    and keys: "fst ` set (bindings q0) \<subseteq> set ids"
    unfolding ids_def by (rule fresh_run)
  have q0q: "q0 = q"
    using assms(2) q0 by simp
  have l: "length ids < 2147483647"
    using assms(1) by (simp add: ids_def)
  then have s: "map sint ids = map (\<lambda>i. 1 + int i) [0..<length ids]"
    unfolding ids_def using fresh_ids_sint [of calls ctx env] by simp
  have c: "sint (nextBindingId q) = 1 + int (length ids)"
    using counter l by (simp add: q0q [symmetric] sint_one_plus)
  have "nextBindingId q \<notin> fst ` set (bindings q)"
  proof
    assume "nextBindingId q \<in> fst ` set (bindings q)"
    then have "nextBindingId q \<in> set ids"
      using keys q0q by blast
    then have "sint (nextBindingId q) \<in> set (map sint ids)"
      by simp
    then show False
      unfolding s c by auto
  qed
  then show ?thesis
    by (simp add: findBinding_def map_of_eq_None_iff)
qed

text \<open>
  Each of the four late stages ends the registration with a host exception pending: an
  unsupported parameter type, no namespace object, no native function, no property.
\<close>

lemma registration_stage_failures:
  assumes q: "quick m = Some context"
    and before: "pendingException (jni m) = None"
    and stage: "classifyParameters (refs context)
                  (case parameterTypes of None \<Rightarrow> [] | Some ts \<Rightarrow> ts) [] = None
                \<or> fst (ensureGlobalObject f (toUtfString objName) (js m)) = None
                \<or> failNewCFunction f \<or> failDefineProperty f"
  shows "pendingException
           (jni (nativeRegister f objName metName method instance parameterTypes returnType m))
         \<noteq> None"
proof -
  define types where "types = (case parameterTypes of None \<Rightarrow> [] | Some ts \<Rightarrow> ts)"
  obtain bm env1 where n1: "NewGlobalRef method (jni m) = (bm, env1)"
    by (cases "NewGlobalRef method (jni m)")
  obtain bi env2 where n2: "NewGlobalRef instance env1 = (bi, env2)"
    by (cases "NewGlobalRef instance env1")
  have thrown: "pendingException (DeleteGlobalRef a (DeleteGlobalRef b
                   (throwQuickJsException e r message))) \<noteq> None" for a b e r message
    using throwQuickJsException_eq [of e r message] by (auto simp add: DeleteGlobalRef_eq)
  have thrown': "pendingException (throwQuickJsException e r message) \<noteq> None" for e r message
    using throwQuickJsException_eq [of e r message] by auto
  show ?thesis
  proof (cases "toUtfString objName = [] \<or> toUtfString metName = []")
    case True
    then show ?thesis
      using q thrown' by (auto simp add: nativeRegister_def Let_def)
  next
    case names: False
    show ?thesis
    proof (cases "classifyParameters (refs context) types []")
      case None
      then show ?thesis
        using q names n1 n2 thrown
        by (auto simp add: nativeRegister_def Let_def types_def [symmetric])
    next
      case (Some kinds)
      note kinds = this
      show ?thesis
      proof (cases "classifyReturn (refs context) returnType")
        case None
        then show ?thesis
          using q names n1 n2 kinds thrown
          by (auto simp add: nativeRegister_def Let_def types_def [symmetric])
      next
        case (Some kind)
        note kind = this
        define b where "b = \<lparr>id' = nextBindingId context, objectName = toUtfString objName,
            methodName = toUtfString metName, method' = bm, instance' = bi,
            parameterKinds = kinds, returnKind = kind\<rparr>"
        define context1 where "context1 = context\<lparr>bindings := emplace (nextBindingId context) b (bindings context),
            nextBindingId := nextBindingId context + 1\<rparr>"
        obtain env3 context2 where rb: "rollback (nextBindingId context) env2 context1 = (env3, context2)"
          by (cases "rollback (nextBindingId context) env2 context1")
        obtain r js1 where eg: "ensureGlobalObject f (toUtfString objName) (js m) = (r, js1)"
          by (cases "ensureGlobalObject f (toUtfString objName) (js m)")
        show ?thesis
        proof (cases r)
          case None
          then show ?thesis
            using q names n1 n2 kinds kind eg rb thrown'
            by (simp add: nativeRegister_def Let_def types_def [symmetric] b_def [symmetric]
                  context1_def [symmetric])
        next
          case (Some objectValue)
          obtain fn js2 where nf: "JS_NewCFunctionMagic f (toUtfString metName) (length types)
                                      (nextBindingId context) js1 = (fn, js2)"
            by (cases "JS_NewCFunctionMagic f (toUtfString metName) (length types)
                                      (nextBindingId context) js1")
          obtain status js3 where dp: "JS_DefinePropertyValueStr f objectValue (toUtfString metName) fn js2
                                         = (status, js3)"
            by (cases "JS_DefinePropertyValueStr f objectValue (toUtfString metName) fn js2")
          have late: "failNewCFunction f \<or> failDefineProperty f"
            using stage kinds eg Some by (simp add: types_def)
          have "JS_IsException fn \<or> status < 0"
            using late nf dp
            by (auto simp add: JS_NewCFunctionMagic_def JS_DefinePropertyValueStr_def
                  JS_IsException_def split: if_splits JSValue.splits)
          then show ?thesis
            using q names n1 n2 kinds kind eg Some rb nf dp thrown'
            by (auto simp add: nativeRegister_def Let_def types_def [symmetric] b_def [symmetric]
                  context1_def [symmetric])
        qed
      qed
    qed
  qed
qed

subsection \<open>Registration is all or nothing\<close>




subsection \<open>Identifiers\<close>






subsection \<open>Bindings stay until the context is destroyed\<close>



end
